theory Spec2Isabelle
  imports Main
begin

section \<open>The dataset download script \<^verbatim>\<open>download_dataset.py\<close>\<close>

text \<open>
  The script is a straight-line program: it checks its imports, reads its configuration
  from the process environment, asks the hosting service for the versions of a project,
  picks one, downloads it (retrying once with the latest version) and prints a summary
  of the downloaded directory.  The model below follows it statement by statement.
  A run returns how the interpreter left the script (normally, or with a Python
  exception, \<^verbatim>\<open>sys.exit\<close> being the exception \<^verbatim>\<open>SystemExit\<close>) together with
  the list of what the run did to the outside: the lines it printed and the calls it made
  to the hosting service's client.
\<close>

subsection \<open>Python values, exceptions and the builtin \<^verbatim>\<open>int\<close>\<close>

text \<open>
  The exceptions a run can meet.  \<open>SystemExit\<close> (with an integer code) derives from
  \<^verbatim>\<open>BaseException\<close> only, so that \<^verbatim>\<open>except Exception\<close> lets it through; every other
  constructor is a subclass of \<^verbatim>\<open>Exception\<close>.
\<close>

datatype exn =
    TypeError
  | ValueError
  | IndexError
  | OverflowError
  | OtherException string
  | SystemExit int

fun is_Exception :: "exn \<Rightarrow> bool" where
  "is_Exception (SystemExit _) = False"
| "is_Exception _ = True"

text \<open>
  A floating-point number is finite, of the form \<open>m \<times> 2\<^sup>e\<close> with integers \<open>m\<close> and
  \<open>e\<close>, or one of the two infinities, or not a number.  No arithmetic is done on it:
  the script only converts it with \<^verbatim>\<open>int\<close>.
\<close>

datatype pyfloat = Finite int int | PosInf | NegInf | NaN

text \<open>
  The values a version identifier may hold: \<^verbatim>\<open>None\<close>, a boolean, an integer, a string,
  a floating-point number, or an object of any other type.  Of such an object the script
  sees only what \<^verbatim>\<open>int\<close> does on it, which \<open>PObject\<close> carries: the integer that its
  conversion returns, or the exception that \<^verbatim>\<open>int\<close> raises (\<^verbatim>\<open>TypeError\<close> for a list,
  a dictionary or a plain object, which have no conversion).
\<close>

datatype pyval =
  PNone | PBool bool | PInt int | PStr string | PFloat pyfloat | PObject "exn + int"

text \<open>
  \<^verbatim>\<open>int\<close> on a finite floating-point number truncates towards zero; on an infinity
  it raises \<^verbatim>\<open>OverflowError\<close>, on not-a-number \<^verbatim>\<open>ValueError\<close>.
\<close>

fun float_to_int :: "pyfloat \<Rightarrow> exn + int" where
  "float_to_int (Finite m e) =
     Inr (if 0 \<le> e then m * 2 ^ nat e
          else if 0 \<le> m then m div 2 ^ nat (- e)
          else - ((- m) div 2 ^ nat (- e)))"
| "float_to_int PosInf = Inl OverflowError"
| "float_to_int NegInf = Inl OverflowError"
| "float_to_int NaN = Inl ValueError"

text \<open>
  \<^verbatim>\<open>int\<close> on a string belongs to the interpreter: which characters count as white space
  and as digits, and how many digits are allowed, depends on its Unicode tables, its
  version and its settings.  The model takes it as a parameter \<open>parse\<close>, which gives
  the integer or \<open>None\<close> where \<^verbatim>\<open>int\<close> raises \<^verbatim>\<open>ValueError\<close>; every statement below
  holds for every such function.
\<close>

fun py_int :: "(string \<Rightarrow> int option) \<Rightarrow> pyval \<Rightarrow> exn + int" where
  "py_int parse PNone = Inl TypeError"
| "py_int parse (PBool b) = Inr (if b then 1 else 0)"
| "py_int parse (PInt n) = Inr n"
| "py_int parse (PStr s) = (case parse s of None \<Rightarrow> Inl ValueError | Some n \<Rightarrow> Inr n)"
| "py_int parse (PFloat x) = float_to_int x"
| "py_int parse (PObject r) = r"

text \<open>
  For the sample runs: \<^verbatim>\<open>int(s)\<close> on an ASCII string \<open>s\<close> as CPython 3.11 computes it
  with its default settings.  The white space that \<^verbatim>\<open>int\<close> drops at both ends is the
  space and the characters 9 to 13; one sign is allowed; the digits may be grouped by
  single underscores; more than 4300 digits are refused.
\<close>

definition is_space :: "char \<Rightarrow> bool" where
  "is_space c = (c \<in> set [CHR '' '', CHR 0x09, CHR 0x0A, CHR 0x0B, CHR 0x0C, CHR 0x0D])"

definition strip :: "string \<Rightarrow> string" where
  "strip s = rev (dropWhile is_space (rev (dropWhile is_space s)))"

definition is_digit :: "char \<Rightarrow> bool" where
  "is_digit c = (c \<in> set ''0123456789'')"

definition digit_value :: "char \<Rightarrow> nat" where
  "digit_value c = of_char c - 48"

fun parse_digits :: "string \<Rightarrow> nat \<Rightarrow> nat option" where
  "parse_digits [] acc = Some acc"
| "parse_digits (c # cs) acc =
     (if is_digit c then parse_digits cs (10 * acc + digit_value c)
      else if c = CHR ''_'' then
        (case cs of
           [] \<Rightarrow> None
         | d # ds \<Rightarrow> if is_digit d then parse_digits ds (10 * acc + digit_value d) else None)
      else None)"

definition parse_nat :: "string \<Rightarrow> nat option" where
  "parse_nat s =
     (if 4300 < length (filter is_digit s) then None
      else case s of
             [] \<Rightarrow> None
           | c # cs \<Rightarrow> if is_digit c then parse_digits cs (digit_value c) else None)"

definition int_of_str :: "string \<Rightarrow> int option" where
  "int_of_str s =
     (case strip s of
        [] \<Rightarrow> None
      | c # cs \<Rightarrow>
          if c = CHR ''-'' then map_option (\<lambda>n. - int n) (parse_nat cs)
          else if c = CHR ''+'' then map_option int (parse_nat cs)
          else map_option int (parse_nat (c # cs)))"

text \<open>\<^verbatim>\<open>str.lower\<close> on ASCII: the letters A to Z are mapped to a to z.\<close>

definition lower_char :: "char \<Rightarrow> char" where
  "lower_char c =
     (case map_of (zip ''ABCDEFGHIJKLMNOPQRSTUVWXYZ'' ''abcdefghijklmnopqrstuvwxyz'') c of
        None \<Rightarrow> c
      | Some d \<Rightarrow> d)"

definition lower :: "string \<Rightarrow> string" where
  "lower s = map lower_char s"

subsection \<open>Version entries and \<^verbatim>\<open>_extract_version_numbers\<close>\<close>

text \<open>
  An entry of the version listing is any Python object.  What the parser can see of it
  is its attributes and, when it is a \<^verbatim>\<open>dict\<close>, its items (both are plain lookups): an attribute-style entry
  has a \<open>version\<close> attribute, a mapping-style entry is a dictionary with a
  \<open>version\<close> key, and any other entry has neither.
\<close>

datatype item = Item (attrs: "string \<rightharpoonup> pyval") (mapping: "(string \<rightharpoonup> pyval) option")

definition getattr :: "item \<Rightarrow> string \<Rightarrow> pyval \<Rightarrow> pyval" where
  "getattr it name dflt = (case attrs it name of None \<Rightarrow> dflt | Some v \<Rightarrow> v)"

definition isinstance_dict :: "item \<Rightarrow> bool" where
  "isinstance_dict it = (mapping it \<noteq> None)"

definition dict_get :: "item \<Rightarrow> string \<Rightarrow> pyval" where
  "dict_get it key =
     (case mapping it of
        None \<Rightarrow> PNone
      | Some d \<Rightarrow> (case d key of None \<Rightarrow> PNone | Some v \<Rightarrow> v))"

text \<open>Lines 60 to 62: the value that the loop body hands to \<^verbatim>\<open>int\<close>.\<close>

definition version_value :: "item \<Rightarrow> pyval" where
  "version_value it =
     (let v = getattr it ''version'' PNone
      in if v = PNone \<and> isinstance_dict it then dict_get it ''version'' else v)"

text \<open>
  The loop of lines 59 to 66, with \<open>version_numbers\<close> as accumulator.  The handler
  catches \<^verbatim>\<open>TypeError\<close> and \<^verbatim>\<open>ValueError\<close> and continues; any other exception
  (the \<^verbatim>\<open>OverflowError\<close> of an infinite number) leaves the function.
\<close>

fun extract_loop :: "(string \<Rightarrow> int option) \<Rightarrow> item list \<Rightarrow> int list \<Rightarrow> exn + int list" where
  "extract_loop parse [] version_numbers = Inr version_numbers"
| "extract_loop parse (it # rest) version_numbers =
     (case py_int parse (version_value it) of
        Inr n \<Rightarrow> extract_loop parse rest (version_numbers @ [n])
      | Inl e \<Rightarrow>
          if e = TypeError \<or> e = ValueError then extract_loop parse rest version_numbers
          else Inl e)"

text \<open>
  \<^verbatim>\<open>version_objects or []\<close> replaces \<^verbatim>\<open>None\<close> (and the empty list) by the empty
  list; \<^verbatim>\<open>sorted(set(version_numbers))\<close> is the ascending list of the distinct numbers.
\<close>

definition extract_version_numbers ::
  "(string \<Rightarrow> int option) \<Rightarrow> item list option \<Rightarrow> exn + int list" where
  "extract_version_numbers parse version_objects =
     (case extract_loop parse (case version_objects of None \<Rightarrow> [] | Some xs \<Rightarrow> xs) [] of
        Inl e \<Rightarrow> Inl e
      | Inr version_numbers \<Rightarrow> Inr (sorted_list_of_set (set version_numbers)))"

subsection \<open>What a run does to the outside\<close>

text \<open>
  The calls to the hosting service's client, with their arguments.  \<open>Download\<close> stands
  for the expression \<^verbatim>\<open>project.version(v).download(FORMAT, location=DEST, overwrite=...)\<close>;
  \<open>GenerateVersion\<close> for \<^verbatim>\<open>project.generate_version\<close> with its fixed settings (empty
  augmentation and preprocessing).
\<close>

datatype net_call =
    Roboflow string
  | Workspace string
  | Project string
  | Versions
  | GenerateVersion
  | Download int string string bool

text \<open>
  The printed lines, one constructor for each \<^verbatim>\<open>print\<close> statement or block of them,
  carrying the values that the statement formats into its text.
\<close>

datatype message =
    MsgMissingDependencies "string list"
  | MsgApiKeyNotFound
  | MsgConnecting string
  | MsgAvailableVersions "int list"
  | MsgGenerating
  | MsgGenerated int
  | MsgGenerateFailed exn
  | MsgNoVersions string string
  | MsgFallback int int
  | MsgDownloading int string string
  | MsgDownloadFailed int exn
  | MsgRetrying int
  | MsgDownloadComplete string bool
  | MsgVerificationSummary nat nat bool bool
  | MsgTraceback exn

datatype event = Out message | Net net_call

fun is_net :: "event \<Rightarrow> bool" where
  "is_net (Net _) = True"
| "is_net (Out _) = False"

type_synonym 'a res = "(exn + 'a) \<times> event list"

text \<open>Sequencing: the second part runs only when the first has not raised.\<close>

definition bind_res :: "'a res \<Rightarrow> ('a \<Rightarrow> 'b res) \<Rightarrow> 'b res" where
  "bind_res m f =
     (case m of
        (Inl e, evs) \<Rightarrow> (Inl e, evs)
      | (Inr x, evs) \<Rightarrow> (case f x of (r, evs') \<Rightarrow> (r, evs @ evs')))"

definition print :: "message \<Rightarrow> unit res" where
  "print m = (Inr (), [Out m])"

definition call :: "net_call \<Rightarrow> exn + 'a \<Rightarrow> 'a res" where
  "call c r = (r, [Net c])"

text \<open>
  What the interpreter does when the script ends: the exit status is 0 after a normal
  end and the low eight bits of the code of a \<^verbatim>\<open>SystemExit\<close>; any other exception
  that reaches the top level is printed with its traceback on the standard error stream
  (\<open>MsgTraceback\<close>) and the exit status is 1.
\<close>

fun exit_status :: "exn + 'a \<Rightarrow> int" where
  "exit_status (Inr _) = 0"
| "exit_status (Inl (SystemExit n)) = n mod 256"
| "exit_status (Inl _) = 1"

fun traceback :: "exn + 'a \<Rightarrow> event list" where
  "traceback (Inr _) = []"
| "traceback (Inl (SystemExit n)) = []"
| "traceback (Inl e) = [Out (MsgTraceback e)]"

subsection \<open>The outside world of one run\<close>

text \<open>
  Everything the script reads: which of the two packages can be imported, the process
  environment (after \<^verbatim>\<open>load_dotenv\<close>), the answers of the hosting service's client,
  and the file system as \<^verbatim>\<open>pathlib\<close> shows it; with them the interpreter's
  \<^verbatim>\<open>int\<close> on strings (\<open>builtin_int\<close>), the parameter of \<open>py_int\<close>.  No call is made twice with the same
  arguments in one run, so an answer per call describes every behaviour of the service.
\<close>

type_synonym path = "string list"

record world =
  builtin_int :: "string \<Rightarrow> int option"
  roboflow_installed :: bool
  dotenv_installed :: bool
  environ :: "string \<rightharpoonup> string"
  rf_Roboflow :: "string \<Rightarrow> exn + unit"
  rf_workspace :: "string \<Rightarrow> exn + unit"
  rf_project :: "string \<Rightarrow> exn + unit"
  rf_versions :: "exn + item list option"
  rf_generate_version :: "exn + pyval"
  rf_download :: "int \<Rightarrow> string \<Rightarrow> string \<Rightarrow> bool \<Rightarrow> exn + string"
  path_exists :: "path \<Rightarrow> bool"
  path_glob :: "path \<Rightarrow> string \<Rightarrow> path list"

text \<open>\<^verbatim>\<open>Path(s)\<close> and the operator \<^verbatim>\<open>/\<close> that appends a component.\<close>

definition Path :: "string \<Rightarrow> path" where
  "Path s = [s]"

definition joinpath :: "path \<Rightarrow> string \<Rightarrow> path" where
  "joinpath p c = p @ [c]"

subsection \<open>Configuration (lines 13 to 50)\<close>

definition check_dependencies :: "world \<Rightarrow> unit res" where
  "check_dependencies w =
     (let missing = (if roboflow_installed w then [] else [''roboflow'']) @
                    (if dotenv_installed w then [] else [''python-dotenv''])
      in if missing \<noteq> [] then (Inl (SystemExit 1), [Out (MsgMissingDependencies missing)])
         else (Inr (), []))"

text \<open>\<^verbatim>\<open>not api_key\<close> holds for \<^verbatim>\<open>None\<close> and for the empty string.\<close>

definition api_key :: "world \<Rightarrow> string res" where
  "api_key w =
     (case environ w ''ROBOFLOW_API_KEY'' of
        None \<Rightarrow> (Inl (SystemExit 1), [Out MsgApiKeyNotFound])
      | Some k \<Rightarrow> if k = [] then (Inl (SystemExit 1), [Out MsgApiKeyNotFound]) else (Inr k, []))"

definition getenv :: "world \<Rightarrow> string \<Rightarrow> string \<Rightarrow> string" where
  "getenv w name dflt = (case environ w name of None \<Rightarrow> dflt | Some v \<Rightarrow> v)"

record config =
  WORKSPACE :: string
  PROJECT :: string
  VERSION :: int
  FORMAT :: string
  DEST :: string
  AUTO_GENERATE_VERSION :: bool
  OVERWRITE_EXISTING :: bool

text \<open>Lines 41 to 50: the two toggles are computed by the same expression.\<close>

definition toggle :: "world \<Rightarrow> string \<Rightarrow> bool" where
  "toggle w name = (lower (getenv w name ''1'') \<notin> set [''0'', ''false'', ''no''])"

text \<open>
  Lines 36 to 50.  The only statement that can raise is line 38, where \<^verbatim>\<open>int\<close>
  raises \<^verbatim>\<open>ValueError\<close> on a string that is no integer; nothing catches it.
\<close>

definition configuration :: "world \<Rightarrow> config res" where
  "configuration w =
     (case builtin_int w (getenv w ''ROBOFLOW_VERSION'' ''1'') of
        None \<Rightarrow> (Inl ValueError, [])
      | Some v \<Rightarrow>
          (Inr \<lparr>WORKSPACE = getenv w ''ROBOFLOW_WORKSPACE'' ''cvtesting-3rnup'',
                PROJECT = getenv w ''ROBOFLOW_PROJECT'' ''segmentation-ui-oh51c'',
                VERSION = v,
                FORMAT = getenv w ''ROBOFLOW_FORMAT'' ''yolov8'',
                DEST = getenv w ''ROBOFLOW_DEST'' ''./dataset'',
                AUTO_GENERATE_VERSION = toggle w ''ROBOFLOW_AUTO_GENERATE_VERSION'',
                OVERWRITE_EXISTING = toggle w ''ROBOFLOW_OVERWRITE''\<rparr>, []))"

subsection \<open>Project handle and version listing (lines 52 to 71)\<close>

definition project :: "world \<Rightarrow> string \<Rightarrow> config \<Rightarrow> unit res" where
  "project w key cfg =
     bind_res (print (MsgConnecting (WORKSPACE cfg))) (\<lambda>_.
     bind_res (call (Roboflow key) (rf_Roboflow w key)) (\<lambda>_.
     bind_res (call (Workspace (WORKSPACE cfg)) (rf_workspace w (WORKSPACE cfg))) (\<lambda>_.
     call (Project (PROJECT cfg)) (rf_project w (PROJECT cfg)))))"

definition versions :: "world \<Rightarrow> int list res" where
  "versions w =
     bind_res (call Versions (rf_versions w)) (\<lambda>vs.
       (extract_version_numbers (builtin_int w) vs, []))"

subsection \<open>Making sure a version exists (lines 73 to 103)\<close>

text \<open>
  Takes the list computed at line 71 and returns the value of \<open>available_versions\<close>
  at line 105.  The handler of line 90 catches every \<^verbatim>\<open>Exception\<close>, raised by the
  remote call or by \<^verbatim>\<open>int\<close>.
\<close>

definition available_versions :: "world \<Rightarrow> config \<Rightarrow> int list \<Rightarrow> int list res" where
  "available_versions w cfg avail =
     (if avail \<noteq> [] then bind_res (print (MsgAvailableVersions avail)) (\<lambda>_. (Inr avail, []))
      else if AUTO_GENERATE_VERSION cfg then
        bind_res (print MsgGenerating) (\<lambda>_.
          case call GenerateVersion (rf_generate_version w) of
            (Inl e, evs) \<Rightarrow>
              if is_Exception e
              then (Inl (SystemExit 1), evs @ [Out (MsgGenerateFailed e)])
              else (Inl e, evs)
          | (Inr v, evs) \<Rightarrow>
              (case py_int (builtin_int w) v of
                 Inl e \<Rightarrow>
                   if is_Exception e
                   then (Inl (SystemExit 1), evs @ [Out (MsgGenerateFailed e)])
                   else (Inl e, evs)
               | Inr generated \<Rightarrow> (Inr [generated], evs @ [Out (MsgGenerated generated)])))
      else (Inl (SystemExit 1), [Out (MsgNoVersions (WORKSPACE cfg) (PROJECT cfg))]))"

subsection \<open>Version selection (lines 105 to 112)\<close>

text \<open>\<^verbatim>\<open>available_versions[-1]\<close> raises \<^verbatim>\<open>IndexError\<close> on the empty list.\<close>

definition target_version :: "int \<Rightarrow> int list \<Rightarrow> int res" where
  "target_version requested avail =
     (if requested \<in> set avail then (Inr requested, [])
      else (case avail of
              [] \<Rightarrow> (Inl IndexError, [])
            | _ # _ \<Rightarrow> (Inr (last avail), [Out (MsgFallback requested (last avail))])))"

subsection \<open>Download with one retry (lines 115 to 128)\<close>

definition download :: "world \<Rightarrow> config \<Rightarrow> int \<Rightarrow> string res" where
  "download w cfg v =
     call (Download v (FORMAT cfg) (DEST cfg) (OVERWRITE_EXISTING cfg))
          (rf_download w v (FORMAT cfg) (DEST cfg) (OVERWRITE_EXISTING cfg))"

definition dataset :: "world \<Rightarrow> config \<Rightarrow> int \<Rightarrow> int list \<Rightarrow> string res" where
  "dataset w cfg target avail =
     (case download w cfg target of
        (Inr location, evs) \<Rightarrow> (Inr location, evs)
      | (Inl e, evs) \<Rightarrow>
          if \<not> is_Exception e then (Inl e, evs)
          else
            (case bind_res (print (MsgDownloadFailed target e)) (\<lambda>_.
                    case avail of
                      [] \<Rightarrow> (Inl IndexError, [])
                    | _ # _ \<Rightarrow>
                        if target \<noteq> last avail
                        then bind_res (print (MsgRetrying (last avail))) (\<lambda>_.
                               download w cfg (last avail))
                        else (Inl e, []))
             of (r, evs') \<Rightarrow> (r, evs @ evs')))"

subsection \<open>Verification summary (lines 135 to 147)\<close>

definition verification :: "world \<Rightarrow> string \<Rightarrow> unit res" where
  "verification w location =
     (let root = Path location
      in if path_exists w root then
           (let train_imgs = path_glob w (joinpath (joinpath root ''train'') ''images'') ''*'';
                train_lbls = path_glob w (joinpath (joinpath root ''train'') ''labels'') ''*.txt'';
                valid_exists = path_exists w (joinpath root ''valid'');
                test_exists = path_exists w (joinpath root ''test'')
            in print (MsgVerificationSummary (length train_imgs) (length train_lbls)
                        valid_exists test_exists))
         else (Inr (), []))"

subsection \<open>The whole script\<close>

text \<open>Lines 13 to 103: everything up to the final value of \<open>available_versions\<close>.\<close>

definition discover :: "world \<Rightarrow> (config \<times> int list) res" where
  "discover w =
     bind_res (check_dependencies w) (\<lambda>_.
     bind_res (api_key w) (\<lambda>key.
     bind_res (configuration w) (\<lambda>cfg.
     bind_res (project w key cfg) (\<lambda>_.
     bind_res (versions w) (\<lambda>avail.
     bind_res (available_versions w cfg avail) (\<lambda>avail'. (Inr (cfg, avail'), [])))))))"

text \<open>Lines 105 to 147.\<close>

definition fetch :: "world \<Rightarrow> config \<Rightarrow> int list \<Rightarrow> unit res" where
  "fetch w cfg avail =
     bind_res (target_version (VERSION cfg) avail) (\<lambda>target.
     bind_res (print (MsgDownloading target (FORMAT cfg) (DEST cfg))) (\<lambda>_.
     bind_res (dataset w cfg target avail) (\<lambda>location.
     bind_res (print (MsgDownloadComplete location (OVERWRITE_EXISTING cfg))) (\<lambda>_.
     verification w location))))"

definition download_dataset :: "world \<Rightarrow> unit res" where
  "download_dataset w = bind_res (discover w) (\<lambda>(cfg, avail). fetch w cfg avail)"

text \<open>The process as seen from outside: its prints and calls, and its exit status.\<close>

definition process :: "world \<Rightarrow> event list \<times> int" where
  "process w = (case download_dataset w of (r, evs) \<Rightarrow> (evs @ traceback r, exit_status r))"

subsection \<open>Shapes of version entries and a sample run\<close>

text \<open>
  The three kinds of entry the listing can hold: an object with a \<open>version\<close>
  attribute, a dictionary with a \<open>version\<close> key, and an entry with neither.
\<close>

definition attribute_entry :: "pyval \<Rightarrow> item" where
  "attribute_entry v = Item [''version'' \<mapsto> v] None"

definition mapping_entry :: "pyval \<Rightarrow> item" where
  "mapping_entry v = Item Map.empty (Some [''version'' \<mapsto> v])"



text \<open>
  A world for concrete runs: both packages are installed, the key and the requested
  version 1 are set, the project has the versions 1 and 3 (listed in both shapes, with one
  entry that is no number and one duplicate), the download of version 1 fails and any
  other succeeds, and the destination holds ten images and eight label files but no
  \<open>valid\<close> or \<open>test\<close> directory.
\<close>

definition example_world :: world where
  "example_world =
     \<lparr>builtin_int = int_of_str,
      roboflow_installed = True,
      dotenv_installed = True,
      environ = [''ROBOFLOW_API_KEY'' \<mapsto> ''secret'', ''ROBOFLOW_VERSION'' \<mapsto> ''1'',
                 ''ROBOFLOW_OVERWRITE'' \<mapsto> ''False''],
      rf_Roboflow = (\<lambda>_. Inr ()),
      rf_workspace = (\<lambda>_. Inr ()),
      rf_project = (\<lambda>_. Inr ()),
      rf_versions = Inr (Some [mapping_entry (PStr ''3''), attribute_entry (PInt 1),
                               mapping_entry (PStr ''bad''), attribute_entry (PInt 1)]),
      rf_generate_version = Inr (PStr ''1''),
      rf_download = (\<lambda>v f d ow. if v = 1 then Inl (OtherException ''export failed'') else Inr d),
      path_exists = (\<lambda>p. p = [''./dataset'']),
      path_glob = (\<lambda>p pat.
         if pat = ''*''
         then map (joinpath p) [''a.png'', ''b.png'', ''c.png'', ''d.png'', ''e.png'', ''f.png'', ''g.png'',
                                 ''h.png'', ''i.png'', ''j.png'']
         else map (joinpath p) [''a.txt'', ''b.txt'', ''c.txt'', ''d.txt'', ''e.txt'', ''f.txt'',
                                ''g.txt'', ''h.txt''])\<rparr>"

definition example_config :: config where
  "example_config =
     \<lparr>WORKSPACE = ''cvtesting-3rnup'', PROJECT = ''segmentation-ui-oh51c'', VERSION = 1,
      FORMAT = ''yolov8'', DEST = ''./dataset'', AUTO_GENERATE_VERSION = True,
      OVERWRITE_EXISTING = False\<rparr>"

text \<open>The same world with a requested version that is no integer.\<close>

definition malformed_version_world :: world where
  "malformed_version_world =
     example_world\<lparr>environ := [''ROBOFLOW_API_KEY'' \<mapsto> ''secret'',
                               ''ROBOFLOW_VERSION'' \<mapsto> ''latest'']\<rparr>"

text \<open>The events that are download calls.\<close>

fun is_download :: "event \<Rightarrow> bool" where
  "is_download (Net (Download _ _ _ _)) = True"
| "is_download _ = False"

section \<open>Properties\<close>

subsection \<open>Auxiliary facts\<close>

lemma last_sorted_Max: "sorted xs \<Longrightarrow> xs \<noteq> [] \<Longrightarrow> last xs = Max (set xs)"
  by (induction xs) (auto simp: max_def intro!: antisym)

lemma float_to_int_raises:
  "float_to_int x = Inl e \<Longrightarrow>
   e = ValueError \<and> x = NaN \<or> e = OverflowError \<and> (x = PosInf \<or> x = NegInf)"
  by (cases x) auto

subsection \<open>Version selection\<close>

text \<open>
  C1.  For a version set \<open>V\<close> (an ascending list) that is not empty and a requested version
  \<open>r\<close>, the selection of lines 105 to 112 returns \<open>r\<close> when \<open>r\<close> is a member of \<open>V\<close> and
  the maximum of \<open>V\<close> otherwise.
\<close>

theorem target_version_spec:
  "sorted V \<Longrightarrow> V \<noteq> [] \<Longrightarrow>
   fst (target_version r V) = Inr (if r \<in> set V then r else Max (set V))"
  by (cases V) (auto simp: target_version_def last_sorted_Max simp del: last.simps)

theorem target_version_spec_witness:
  "sorted [1, 3 :: int] \<and> [1, 3 :: int] \<noteq> [] \<and>
   fst (target_version 2 [1, 3]) = Inr 3 \<and> fst (target_version 1 [1, 3]) = Inr 1"
  using target_version_spec [of "[1, 3]" 2] target_version_spec [of "[1, 3]" 1] by simp

lemma bind_res_events:
  "ev \<in> set (snd (bind_res m f)) \<Longrightarrow>
   ev \<in> set (snd m) \<or> (\<exists>x. fst m = Inr x \<and> ev \<in> set (snd (f x)))"
  by (auto simp: bind_res_def split: prod.splits sum.splits)

lemma exit_status_Exception: "is_Exception e \<Longrightarrow> exit_status (Inl e) = 1"
  by (cases e) auto

lemmas int_of_str_eval =
  int_of_str_def strip_def is_space_def parse_nat_def is_digit_def digit_value_def

text \<open>The sample reader on some strings, and the conversion of some numbers.\<close>

lemma int_of_str_examples:
  "int_of_str '' -1_000 '' = Some (- 1000)"
  "int_of_str ''+007'' = Some 7"
  "int_of_str [CHR 0x0B, CHR ''7'', CHR 0x0D] = Some 7"
  "int_of_str [CHR 0x1C, CHR ''7''] = None"
  "int_of_str ''1__0'' = None"
  "int_of_str ''3.0'' = None"
  "int_of_str [] = None"
  by (simp_all add: int_of_str_eval)

lemma parse_nat_limit: "4300 < length (filter is_digit s) \<Longrightarrow> parse_nat s = None"
  by (simp add: parse_nat_def)

lemma float_to_int_examples:
  "float_to_int (Finite 5 (- 1)) = Inr 2"
  "float_to_int (Finite (- 5) (- 1)) = Inr (- 2)"
  "float_to_int (Finite 3 2) = Inr 12"
  by simp_all

subsection \<open>Parsing the version listing\<close>

lemma version_value_attribute_entry: "version_value (attribute_entry v) = v"
  by (simp add: version_value_def attribute_entry_def getattr_def isinstance_dict_def)

lemma version_value_mapping_entry: "version_value (mapping_entry v) = v"
  by (simp add: version_value_def mapping_entry_def getattr_def isinstance_dict_def dict_get_def)



lemma extract_loop_raises:
  assumes "extract_loop parse items acc = Inl e"
  shows "e \<noteq> TypeError \<and> e \<noteq> ValueError \<and>
         (\<exists>it\<in>set items. py_int parse (version_value it) = Inl e)"
  using assms
proof (induction items arbitrary: acc)
  case Nil
  then show ?case by simp
next
  case (Cons it items)
  show ?case
  proof (cases "py_int parse (version_value it)")
    case (Inr n)
    with Cons.prems have "extract_loop parse items (acc @ [n]) = Inl e" by simp
    from Cons.IH [OF this] show ?thesis by simp
  next
    case (Inl e')
    show ?thesis
    proof (cases "e' = TypeError \<or> e' = ValueError")
      case True
      with Inl Cons.prems have "extract_loop parse items acc = Inl e" by auto
      from Cons.IH [OF this] show ?thesis by simp
    next
      case False
      with Inl Cons.prems have "e' = e" by simp
      with False Inl show ?thesis by simp
    qed
  qed
qed



lemma extract_version_numbers_raises:
  assumes "extract_version_numbers parse (Some items) = Inl e"
  shows "e \<noteq> TypeError \<and> e \<noteq> ValueError \<and>
         (\<exists>it\<in>set items. py_int parse (version_value it) = Inl e)"
proof -
  from assms have "extract_loop parse items [] = Inl e"
    by (simp add: extract_version_numbers_def split: sum.splits)
  then show ?thesis by (rule extract_loop_raises)
qed




subsection \<open>A listing that is \<^verbatim>\<open>None\<close>\<close>

lemma versions_None: "versions (w\<lparr>rf_versions := Inr None\<rparr>) = versions (w\<lparr>rf_versions := Inr (Some [])\<rparr>)"
  by (simp add: versions_def extract_version_numbers_def bind_res_def call_def)

lemma getenv_rf_versions: "getenv (w\<lparr>rf_versions := x\<rparr>) = getenv w"
  by (simp add: getenv_def fun_eq_iff)

lemma toggle_rf_versions: "toggle (w\<lparr>rf_versions := x\<rparr>) = toggle w"
  by (simp add: toggle_def fun_eq_iff getenv_rf_versions)

lemma prelude_rf_versions:
  "check_dependencies (w\<lparr>rf_versions := x\<rparr>) = check_dependencies w"
  "api_key (w\<lparr>rf_versions := x\<rparr>) = api_key w"
  "configuration (w\<lparr>rf_versions := x\<rparr>) = configuration w"
  "project (w\<lparr>rf_versions := x\<rparr>) = project w"
  "available_versions (w\<lparr>rf_versions := x\<rparr>) = available_versions w"
  by (simp_all add: check_dependencies_def api_key_def configuration_def project_def
      available_versions_def getenv_rf_versions toggle_rf_versions fun_eq_iff Let_def
      cong: option.case_cong sum.case_cong prod.case_cong)

lemma discover_None: "discover (w\<lparr>rf_versions := Inr None\<rparr>) = discover (w\<lparr>rf_versions := Inr (Some [])\<rparr>)"
  unfolding discover_def prelude_rf_versions versions_None ..

lemma download_rf_versions: "download (w\<lparr>rf_versions := x\<rparr>) = download w"
  by (simp add: download_def fun_eq_iff)

lemma verification_rf_versions: "verification (w\<lparr>rf_versions := x\<rparr>) = verification w"
  by (simp add: verification_def fun_eq_iff Let_def)

lemma fetch_rf_versions: "fetch (w\<lparr>rf_versions := x\<rparr>) cfg avail = fetch w cfg avail"
  unfolding fetch_def dataset_def download_rf_versions verification_rf_versions ..

text \<open>
  C10.  When the listing is \<^verbatim>\<open>None\<close> the parser returns the empty list without
  raising, and the whole run is the run on the empty listing: the same prints, the same
  calls and the same outcome, so that the handling of an empty version set applies.
\<close>

theorem extract_version_numbers_none:
  "extract_version_numbers parse None = Inr [] \<and>
   download_dataset (w\<lparr>rf_versions := Inr None\<rparr>) = download_dataset (w\<lparr>rf_versions := Inr (Some [])\<rparr>)"
  by (simp add: extract_version_numbers_def download_dataset_def discover_None fetch_rf_versions)


subsection \<open>Making sure a version exists\<close>

text \<open>
  C4.  A non-empty version set is returned unchanged, with no call to the service.  On the
  empty set with auto-generation enabled, one creation request is made; when it returns
  a value that \<^verbatim>\<open>int\<close> accepts, the result is the singleton of that number; when the
  request or the conversion raises an exception, the script exits with status 1.  On the
  empty set with auto-generation disabled the script exits with status 1 and makes no call.
\<close>

theorem available_versions_spec:
  "(V \<noteq> [] \<longrightarrow>
      fst (available_versions w cfg V) = Inr V \<and>
      filter is_net (snd (available_versions w cfg V)) = []) \<and>
   (AUTO_GENERATE_VERSION cfg \<and> rf_generate_version w = Inr g \<and>
    py_int (builtin_int w) g = Inr n \<longrightarrow>
      fst (available_versions w cfg []) = Inr [n] \<and>
      filter is_net (snd (available_versions w cfg [])) = [Net GenerateVersion]) \<and>
   (AUTO_GENERATE_VERSION cfg \<and> is_Exception e \<and>
    (rf_generate_version w = Inl e \<or>
     rf_generate_version w = Inr g \<and> py_int (builtin_int w) g = Inl e) \<longrightarrow>
      fst (available_versions w cfg []) = Inl (SystemExit 1) \<and>
      exit_status (fst (available_versions w cfg [])) = 1 \<and>
      filter is_net (snd (available_versions w cfg [])) = [Net GenerateVersion]) \<and>
   (\<not> AUTO_GENERATE_VERSION cfg \<longrightarrow>
      fst (available_versions w cfg []) = Inl (SystemExit 1) \<and>
      exit_status (fst (available_versions w cfg [])) = 1 \<and>
      filter is_net (snd (available_versions w cfg [])) = [])"
  by (auto simp: available_versions_def bind_res_def print_def call_def)

theorem available_versions_spec_witness:
  "fst (available_versions example_world example_config [1, 3]) = Inr [1, 3] \<and>
   fst (available_versions example_world example_config []) = Inr [1] \<and>
   fst (available_versions (example_world\<lparr>rf_generate_version := Inl (OtherException ''quota'')\<rparr>)
          example_config []) = Inl (SystemExit 1) \<and>
   fst (available_versions (example_world\<lparr>rf_generate_version := Inr PNone\<rparr>)
          example_config []) = Inl (SystemExit 1) \<and>
   fst (available_versions example_world (example_config\<lparr>AUTO_GENERATE_VERSION := False\<rparr>) []) =
     Inl (SystemExit 1) \<and>
   filter is_net (snd (available_versions example_world
     (example_config\<lparr>AUTO_GENERATE_VERSION := False\<rparr>) [])) = []"
  using available_versions_spec [of "[1, 3]" example_world example_config "PStr ''1''" 1 TypeError]
    available_versions_spec [of "[1, 3]" "example_world\<lparr>rf_generate_version := Inl (OtherException ''quota'')\<rparr>"
       example_config PNone 1 "OtherException ''quota''"]
    available_versions_spec [of "[1, 3]" "example_world\<lparr>rf_generate_version := Inr PNone\<rparr>"
       example_config PNone 1 TypeError]
    available_versions_spec [of "[1, 3]" example_world "example_config\<lparr>AUTO_GENERATE_VERSION := False\<rparr>" PNone 1 TypeError]
  by (simp add: example_world_def example_config_def int_of_str_eval)


subsection \<open>Download and retry\<close>

lemma dataset_failure:
  assumes "rf_download w v (FORMAT cfg) (DEST cfg) (OVERWRITE_EXISTING cfg) = Inl e"
    and "is_Exception e" and "V \<noteq> []"
  shows "dataset w cfg v V =
     (if v \<noteq> last V
      then (rf_download w (last V) (FORMAT cfg) (DEST cfg) (OVERWRITE_EXISTING cfg),
            [Net (Download v (FORMAT cfg) (DEST cfg) (OVERWRITE_EXISTING cfg)),
             Out (MsgDownloadFailed v e), Out (MsgRetrying (last V)),
             Net (Download (last V) (FORMAT cfg) (DEST cfg) (OVERWRITE_EXISTING cfg))])
      else (Inl e,
            [Net (Download v (FORMAT cfg) (DEST cfg) (OVERWRITE_EXISTING cfg)),
             Out (MsgDownloadFailed v e)]))"
proof -
  from assms(3) obtain x xs where V: "V = x # xs" by (cases V) auto
  show ?thesis
    using assms(1,2) unfolding V
    by (simp add: dataset_def download_def call_def bind_res_def print_def del: last.simps)
qed

text \<open>
  C3.  Let the download of version \<open>v\<close> fail with an exception, \<open>V\<close> being the non-empty
  ascending list of available versions.  When \<open>v\<close> is not the maximum of \<open>V\<close>, the calls
  made are the failed one and exactly one more, for the maximum of \<open>V\<close> with the same
  format, destination and overwrite flag, and the outcome is the outcome of that second
  call (so a second failure is not retried).  When \<open>v\<close> is the maximum of \<open>V\<close>, the failed
  call is the only one and its exception leaves the script, with exit status 1.
\<close>

theorem dataset_retry_spec:
  assumes "rf_download w v (FORMAT cfg) (DEST cfg) (OVERWRITE_EXISTING cfg) = Inl e"
    and "is_Exception e" and "sorted V" and "V \<noteq> []"
  shows "(v \<noteq> Max (set V) \<longrightarrow>
            fst (dataset w cfg v V) =
              rf_download w (Max (set V)) (FORMAT cfg) (DEST cfg) (OVERWRITE_EXISTING cfg) \<and>
            filter is_net (snd (dataset w cfg v V)) =
              [Net (Download v (FORMAT cfg) (DEST cfg) (OVERWRITE_EXISTING cfg)),
               Net (Download (Max (set V)) (FORMAT cfg) (DEST cfg) (OVERWRITE_EXISTING cfg))]) \<and>
         (v = Max (set V) \<longrightarrow>
            fst (dataset w cfg v V) = Inl e \<and>
            exit_status (fst (dataset w cfg v V)) = 1 \<and>
            filter is_net (snd (dataset w cfg v V)) =
              [Net (Download v (FORMAT cfg) (DEST cfg) (OVERWRITE_EXISTING cfg))])"
proof -
  from assms(3,4) have M: "Max (set V) = last V" by (simp add: last_sorted_Max)
  show ?thesis
    unfolding M dataset_failure [OF assms(1,2,4)]
    by (simp add: exit_status_Exception [OF assms(2)])
qed

theorem dataset_retry_spec_witness:
  "fst (dataset example_world example_config 1 [1, 3]) = Inr ''./dataset'' \<and>
   filter is_net (snd (dataset example_world example_config 1 [1, 3])) =
     [Net (Download 1 ''yolov8'' ''./dataset'' False), Net (Download 3 ''yolov8'' ''./dataset'' False)] \<and>
   fst (dataset example_world example_config 1 [1]) = Inl (OtherException ''export failed'') \<and>
   filter is_net (snd (dataset example_world example_config 1 [1])) =
     [Net (Download 1 ''yolov8'' ''./dataset'' False)]"
  using dataset_retry_spec [of example_world 1 example_config "OtherException ''export failed''" "[1, 3]"]
        dataset_retry_spec [of example_world 1 example_config "OtherException ''export failed''" "[1]"]
  by (simp add: example_world_def example_config_def)

subsection \<open>Sequencing\<close>

lemma bind_res_Inl: "bind_res (Inl e, evs) f = (Inl e, evs)"
  by (simp add: bind_res_def)

lemma bind_res_Inr: "bind_res (Inr x, evs) f = (fst (f x), evs @ snd (f x))"
  by (simp add: bind_res_def split: prod.splits)

lemma bind_res_all:
  assumes "\<forall>ev\<in>set (snd m). P ev" and "\<And>x. \<forall>ev\<in>set (snd (f x)). P ev"
  shows "\<forall>ev\<in>set (snd (bind_res m f)). P ev"
proof (cases m)
  case (Pair r evs)
  show ?thesis
  proof (cases r)
    case (Inl e)
    with Pair assms(1) show ?thesis by (simp add: bind_res_Inl)
  next
    case (Inr x)
    with Pair assms(1) assms(2) [of x] show ?thesis by (auto simp: bind_res_Inr)
  qed
qed

subsection \<open>Missing API key\<close>

lemma check_dependencies_cases:
  "check_dependencies w = (Inr (), []) \<or>
   (\<exists>m. check_dependencies w = (Inl (SystemExit 1), [Out (MsgMissingDependencies m)]))"
  by (simp add: check_dependencies_def)

lemma api_key_missing:
  "environ w ''ROBOFLOW_API_KEY'' = None \<or> environ w ''ROBOFLOW_API_KEY'' = Some [] \<Longrightarrow>
   api_key w = (Inl (SystemExit 1), [Out MsgApiKeyNotFound])"
  by (auto simp: api_key_def)

lemma download_dataset_Inl:
  "discover w = (Inl e, evs) \<Longrightarrow> download_dataset w = (Inl e, evs)"
  by (simp add: download_dataset_def bind_res_Inl)

lemma discover_missing_api_key:
  assumes "environ w ''ROBOFLOW_API_KEY'' = None \<or> environ w ''ROBOFLOW_API_KEY'' = Some []"
  shows "\<exists>m. discover w = (Inl (SystemExit 1), [Out m])"
proof -
  note key = api_key_missing [OF assms]
  from check_dependencies_cases [of w] show ?thesis
  proof
    assume "check_dependencies w = (Inr (), [])"
    then have "discover w = (Inl (SystemExit 1), [Out MsgApiKeyNotFound])"
      by (simp add: discover_def key bind_res_Inl bind_res_Inr)
    then show ?thesis by blast
  next
    assume "\<exists>m. check_dependencies w = (Inl (SystemExit 1), [Out (MsgMissingDependencies m)])"
    then obtain m where "check_dependencies w = (Inl (SystemExit 1), [Out (MsgMissingDependencies m)])"
      by blast
    then have "discover w = (Inl (SystemExit 1), [Out (MsgMissingDependencies m)])"
      by (simp add: discover_def bind_res_Inl)
    then show ?thesis by blast
  qed
qed

text \<open>
  C6.  When the variable \<open>ROBOFLOW_API_KEY\<close> is absent or empty, the process ends with
  exit status 1 and no call to the hosting service's client has been made.
\<close>

theorem missing_api_key_spec:
  assumes "environ w ''ROBOFLOW_API_KEY'' = None \<or> environ w ''ROBOFLOW_API_KEY'' = Some []"
  shows "snd (process w) = 1 \<and> filter is_net (fst (process w)) = []"
proof -
  from discover_missing_api_key [OF assms]
  obtain m where "discover w = (Inl (SystemExit 1), [Out m])" by blast
  then have "download_dataset w = (Inl (SystemExit 1), [Out m])"
    by (rule download_dataset_Inl)
  then show ?thesis by (simp add: process_def)
qed

theorem missing_api_key_spec_witness:
  "snd (process (example_world\<lparr>environ := Map.empty\<rparr>)) = 1 \<and>
   filter is_net (fst (process (example_world\<lparr>environ := Map.empty\<rparr>))) = [] \<and>
   snd (process (example_world\<lparr>environ := [''ROBOFLOW_API_KEY'' \<mapsto> '''']\<rparr>)) = 1 \<and>
   filter is_net (fst (process (example_world\<lparr>environ := [''ROBOFLOW_API_KEY'' \<mapsto> '''']\<rparr>))) = []"
  using missing_api_key_spec [of "example_world\<lparr>environ := Map.empty\<rparr>"]
    missing_api_key_spec [of "example_world\<lparr>environ := [''ROBOFLOW_API_KEY'' \<mapsto> '''']\<rparr>"]
  by simp

subsection \<open>Malformed requested version\<close>

lemma configuration_malformed:
  "builtin_int w (getenv w ''ROBOFLOW_VERSION'' ''1'') = None \<Longrightarrow>
   configuration w = (Inl ValueError, [])"
  by (simp add: configuration_def)

lemma api_key_cases:
  "api_key w = (Inl (SystemExit 1), [Out MsgApiKeyNotFound]) \<or> (\<exists>k. api_key w = (Inr k, []))"
  by (simp add: api_key_def split: option.splits)

lemma discover_malformed_version:
  assumes "builtin_int w (getenv w ''ROBOFLOW_VERSION'' ''1'') = None"
  shows "(\<exists>m. discover w = (Inl (SystemExit 1), [Out m])) \<or> discover w = (Inl ValueError, [])"
proof -
  note cfg = configuration_malformed [OF assms]
  from check_dependencies_cases [of w] show ?thesis
  proof
    assume deps: "check_dependencies w = (Inr (), [])"
    from api_key_cases [of w] show ?thesis
    proof
      assume "api_key w = (Inl (SystemExit 1), [Out MsgApiKeyNotFound])"
      with deps have "discover w = (Inl (SystemExit 1), [Out MsgApiKeyNotFound])"
        by (simp add: discover_def bind_res_Inl bind_res_Inr)
      then show ?thesis by blast
    next
      assume "\<exists>k. api_key w = (Inr k, [])"
      then obtain k where "api_key w = (Inr k, [])" by blast
      with deps cfg have "discover w = (Inl ValueError, [])"
        by (simp add: discover_def bind_res_Inl bind_res_Inr)
      then show ?thesis by blast
    qed
  next
    assume "\<exists>m. check_dependencies w = (Inl (SystemExit 1), [Out (MsgMissingDependencies m)])"
    then obtain m where "check_dependencies w = (Inl (SystemExit 1), [Out (MsgMissingDependencies m)])"
      by blast
    then have "discover w = (Inl (SystemExit 1), [Out (MsgMissingDependencies m)])"
      by (simp add: discover_def bind_res_Inl)
    then show ?thesis by blast
  qed
qed

lemma discover_malformed_version_key:
  assumes "builtin_int w (getenv w ''ROBOFLOW_VERSION'' ''1'') = None"
    and "roboflow_installed w" and "dotenv_installed w" and "fst (api_key w) = Inr k"
  shows "discover w = (Inl ValueError, [])"
proof -
  from assms(2,3) have deps: "check_dependencies w = (Inr (), [])"
    by (simp add: check_dependencies_def)
  from assms(4) api_key_cases [of w] have "api_key w = (Inr k, [])" by auto
  with deps configuration_malformed [OF assms(1)] show ?thesis
    by (simp add: discover_def bind_res_Inl bind_res_Inr)
qed

text \<open>
  C7.  When \<^verbatim>\<open>int\<close> rejects the value of \<open>ROBOFLOW_VERSION\<close>, whatever the strings
  are that the interpreter's \<^verbatim>\<open>int\<close> rejects (\<open>builtin_int\<close> is arbitrary), no configuration
  is built (line 38 raises \<^verbatim>\<open>ValueError\<close>, no default is substituted), the process
  ends with exit status 1 and no call to the service has been made.  When the packages
  are installed and the API key is set, what the process prints is the interpreter's
  report of the uncaught \<^verbatim>\<open>ValueError\<close>, and nothing else.
\<close>

theorem malformed_version_spec:
  assumes "builtin_int w (getenv w ''ROBOFLOW_VERSION'' ''1'') = None"
  shows "configuration w = (Inl ValueError, []) \<and>
         snd (process w) = 1 \<and> filter is_net (fst (process w)) = [] \<and>
         (roboflow_installed w \<and> dotenv_installed w \<and> fst (api_key w) = Inr k \<longrightarrow>
            process w = ([Out (MsgTraceback ValueError)], 1))"
proof -
  from discover_malformed_version [OF assms]
  have "snd (process w) = 1 \<and> filter is_net (fst (process w)) = []"
  proof
    assume "\<exists>m. discover w = (Inl (SystemExit 1), [Out m])"
    then obtain m where "discover w = (Inl (SystemExit 1), [Out m])" by blast
    then have "download_dataset w = (Inl (SystemExit 1), [Out m])"
      by (rule download_dataset_Inl)
    then show ?thesis by (simp add: process_def)
  next
    assume "discover w = (Inl ValueError, [])"
    then have "download_dataset w = (Inl ValueError, [])"
      by (rule download_dataset_Inl)
    then show ?thesis by (simp add: process_def)
  qed
  moreover have "process w = ([Out (MsgTraceback ValueError)], 1)"
    if "roboflow_installed w" "dotenv_installed w" "fst (api_key w) = Inr k"
  proof -
    from discover_malformed_version_key [OF assms that]
    have "download_dataset w = (Inl ValueError, [])" by (rule download_dataset_Inl)
    then show ?thesis by (simp add: process_def)
  qed
  ultimately show ?thesis
    using configuration_malformed [OF assms] by blast
qed

lemma int_of_str_latest: "int_of_str ''latest'' = None"
  by (simp add: int_of_str_eval)

theorem malformed_version_spec_witness:
  "builtin_int malformed_version_world
     (getenv malformed_version_world ''ROBOFLOW_VERSION'' ''1'') = None \<and>
   process malformed_version_world = ([Out (MsgTraceback ValueError)], 1)"
proof -
  have v: "getenv malformed_version_world ''ROBOFLOW_VERSION'' ''1'' = ''latest''"
    by (simp add: getenv_def malformed_version_world_def)
  have k: "fst (api_key malformed_version_world) = Inr ''secret''"
    by (simp add: api_key_def malformed_version_world_def)
  have i: "roboflow_installed malformed_version_world" "dotenv_installed malformed_version_world"
    by (simp_all add: malformed_version_world_def example_world_def)
  have "builtin_int malformed_version_world = int_of_str"
    by (simp add: malformed_version_world_def example_world_def)
  with v have h: "builtin_int malformed_version_world
      (getenv malformed_version_world ''ROBOFLOW_VERSION'' ''1'') = None"
    by (simp add: int_of_str_latest)
  from malformed_version_spec [OF h, of "''secret''"] k i h show ?thesis by blast
qed

subsection \<open>Verification summary\<close>

text \<open>
  C9.  When the location exists, the verification prints one summary with the number of
  entries that match \<^verbatim>\<open>train/images/*\<close>, the number that match
  \<^verbatim>\<open>train/labels/*.txt\<close>, and whether \<open>valid\<close> and \<open>test\<close> exist under the
  location; when the location does not exist it prints nothing; it never raises.
\<close>

theorem verification_spec:
  "verification w location =
     (if path_exists w [location]
      then (Inr (),
            [Out (MsgVerificationSummary
                    (length (path_glob w [location, ''train'', ''images''] ''*''))
                    (length (path_glob w [location, ''train'', ''labels''] ''*.txt''))
                    (path_exists w [location, ''valid''])
                    (path_exists w [location, ''test'']))])
      else (Inr (), []))"
  by (simp add: verification_def Path_def joinpath_def print_def Let_def)

lemma example_world_fs:
  "path_exists example_world p = (p = [''./dataset''])"
  "length (path_glob example_world p ''*'') = 10"
  "length (path_glob example_world p ''*.txt'') = 8"
  by (simp_all add: example_world_def)

theorem verification_spec_witness:
  "verification example_world ''./dataset'' =
     (Inr (), [Out (MsgVerificationSummary 10 8 False False)]) \<and>
   verification example_world ''./elsewhere'' = (Inr (), [])"
  using verification_spec [of example_world "''./dataset''"]
    verification_spec [of example_world "''./elsewhere''"]
  by (simp add: example_world_fs)

subsection \<open>The boolean toggles\<close>

lemma lower_False: "lower ''False'' = ''false''"
  by (simp add: lower_def lower_char_def)

text \<open>
  C8, as stated, fails.  The toggles compare the lower-cased value with the three tokens:
  in the sample world \<open>ROBOFLOW_OVERWRITE\<close> is set to \<open>False\<close>, which is none of the
  tokens \<open>0\<close>, \<open>false\<close>, \<open>no\<close>, and the toggle is false all the same.
\<close>

theorem toggle_case_counterexample:
  "\<not> (toggle example_world ''ROBOFLOW_OVERWRITE'' =
        (getenv example_world ''ROBOFLOW_OVERWRITE'' ''1'' \<notin> {''0'', ''false'', ''no''}))"
proof -
  have "getenv example_world ''ROBOFLOW_OVERWRITE'' ''1'' = ''False''"
    by (simp add: getenv_def example_world_def)
  then show ?thesis by (simp add: toggle_def lower_False)
qed

lemma toggle_iff:
  "toggle w name \<longleftrightarrow>
     \<not> (\<exists>v. environ w name = Some v \<and> lower v \<in> {''0'', ''false'', ''no''})"
proof (cases "environ w name")
  case None
  have "lower ''1'' = ''1''" by (simp add: lower_def lower_char_def)
  with None show ?thesis by (simp add: toggle_def getenv_def)
next
  case (Some v)
  then show ?thesis by (simp add: toggle_def getenv_def)
qed

lemma configuration_toggles:
  "fst (configuration w) = Inr cfg \<Longrightarrow>
   AUTO_GENERATE_VERSION cfg = toggle w ''ROBOFLOW_AUTO_GENERATE_VERSION'' \<and>
   OVERWRITE_EXISTING cfg = toggle w ''ROBOFLOW_OVERWRITE''"
  by (auto simp: configuration_def split: option.splits)

text \<open>
  C8, as the code has it.  In every configuration that is built, each of the two
  toggles is false exactly when its variable is set to a value whose lower-cased form is
  one of \<open>0\<close>, \<open>false\<close>, \<open>no\<close>; it is true for every other value and when the
  variable is absent.
\<close>

theorem toggle_spec:
  assumes "fst (configuration w) = Inr cfg"
  shows "(AUTO_GENERATE_VERSION cfg \<longleftrightarrow>
            \<not> (\<exists>v. environ w ''ROBOFLOW_AUTO_GENERATE_VERSION'' = Some v \<and>
                    lower v \<in> {''0'', ''false'', ''no''})) \<and>
         (OVERWRITE_EXISTING cfg \<longleftrightarrow>
            \<not> (\<exists>v. environ w ''ROBOFLOW_OVERWRITE'' = Some v \<and>
                    lower v \<in> {''0'', ''false'', ''no''}))"
  using configuration_toggles [OF assms]
    toggle_iff [of w "''ROBOFLOW_AUTO_GENERATE_VERSION''"]
    toggle_iff [of w "''ROBOFLOW_OVERWRITE''"]
  by simp

lemma configuration_example: "configuration example_world = (Inr example_config, [])"
proof -
  have "lower ''1'' = ''1''" by (simp add: lower_def lower_char_def)
  moreover have "int_of_str ''1'' = Some 1" by (simp add: int_of_str_eval)
  ultimately show ?thesis
    by (simp add: configuration_def example_world_def example_config_def getenv_def toggle_def
        lower_False)
qed

theorem toggle_spec_witness:
  "fst (configuration example_world) = Inr example_config \<and>
   AUTO_GENERATE_VERSION example_config \<and> \<not> OVERWRITE_EXISTING example_config \<and>
   environ example_world ''ROBOFLOW_AUTO_GENERATE_VERSION'' = None \<and>
   environ example_world ''ROBOFLOW_OVERWRITE'' = Some ''False''"
proof -
  have c: "fst (configuration example_world) = Inr example_config"
    by (simp add: configuration_example)
  have e: "environ example_world ''ROBOFLOW_AUTO_GENERATE_VERSION'' = None"
    "environ example_world ''ROBOFLOW_OVERWRITE'' = Some ''False''"
    by (simp_all add: example_world_def)
  from toggle_spec [OF c] c e show ?thesis by (simp add: lower_False)
qed

subsection \<open>Only available versions are downloaded\<close>

lemma check_dependencies_no_download: "\<forall>ev\<in>set (snd (check_dependencies w)). \<not> is_download ev"
  by (simp add: check_dependencies_def)

lemma api_key_no_download: "\<forall>ev\<in>set (snd (api_key w)). \<not> is_download ev"
  by (simp add: api_key_def split: option.splits)

lemma configuration_no_download: "\<forall>ev\<in>set (snd (configuration w)). \<not> is_download ev"
  by (simp add: configuration_def split: option.splits)

lemma project_no_download: "\<forall>ev\<in>set (snd (project w key cfg)). \<not> is_download ev"
  unfolding project_def
  by (intro bind_res_all) (simp_all add: print_def call_def)

lemma versions_no_download: "\<forall>ev\<in>set (snd (versions w)). \<not> is_download ev"
  unfolding versions_def
  by (intro bind_res_all) (simp_all add: call_def)

lemma available_versions_no_download:
  "\<forall>ev\<in>set (snd (available_versions w cfg avail)). \<not> is_download ev"
  by (simp add: available_versions_def bind_res_Inr print_def call_def split: sum.splits)

lemma discover_no_download: "\<forall>ev\<in>set (snd (discover w)). \<not> is_download ev"
  unfolding discover_def
  by (intro bind_res_all check_dependencies_no_download api_key_no_download
      configuration_no_download project_no_download versions_no_download
      available_versions_no_download) simp

lemma target_version_member: "fst (target_version r V) = Inr t \<Longrightarrow> t \<in> set V"
  by (cases V) (auto simp: target_version_def split: if_splits)

lemma target_version_no_download: "\<forall>ev\<in>set (snd (target_version r V)). \<not> is_download ev"
  by (cases V) (auto simp: target_version_def)

lemma dataset_downloads:
  assumes "Net (Download v f d ow) \<in> set (snd (dataset w cfg t V))"
  shows "v = t \<or> V \<noteq> [] \<and> v = last V"
proof (cases "rf_download w t (FORMAT cfg) (DEST cfg) (OVERWRITE_EXISTING cfg)")
  case (Inr location)
  with assms show ?thesis by (simp add: dataset_def download_def call_def)
next
  case (Inl e)
  show ?thesis
  proof (cases "is_Exception e")
    case False
    with Inl assms show ?thesis by (simp add: dataset_def download_def call_def)
  next
    case True
    show ?thesis
    proof (cases "V = []")
      case True
      with Inl \<open>is_Exception e\<close> assms show ?thesis
        by (simp add: dataset_def download_def call_def bind_res_Inr print_def)
    next
      case False
      from assms show ?thesis
        unfolding dataset_failure [OF Inl True False] using False
        by (auto split: if_splits)
    qed
  qed
qed

lemma print_no_download: "Net c \<notin> set (snd (print m))"
  by (simp add: print_def)

lemma verification_no_download: "Net c \<notin> set (snd (verification w location))"
  by (simp add: verification_def print_def Let_def)

lemma fetch_downloads:
  assumes "Net (Download v f d ow) \<in> set (snd (fetch w cfg V))"
  shows "v \<in> set V"
proof -
  let ?ev = "Net (Download v f d ow)"
  have "?ev \<notin> set (snd (target_version (VERSION cfg) V))"
    using target_version_no_download [of "VERSION cfg" V] by auto
  with bind_res_events [OF assms [unfolded fetch_def]]
  obtain t where t: "fst (target_version (VERSION cfg) V) = Inr t"
    and 1: "?ev \<in> set (snd (bind_res (print (MsgDownloading t (FORMAT cfg) (DEST cfg))) (\<lambda>_.
              bind_res (dataset w cfg t V) (\<lambda>location.
              bind_res (print (MsgDownloadComplete location (OVERWRITE_EXISTING cfg))) (\<lambda>_.
              verification w location)))))"
    by blast
  from bind_res_events [OF 1] print_no_download
  have 2: "?ev \<in> set (snd (bind_res (dataset w cfg t V) (\<lambda>location.
              bind_res (print (MsgDownloadComplete location (OVERWRITE_EXISTING cfg))) (\<lambda>_.
              verification w location))))"
    by blast
  have "?ev \<in> set (snd (dataset w cfg t V))"
  proof (rule ccontr)
    assume "?ev \<notin> set (snd (dataset w cfg t V))"
    with bind_res_events [OF 2] obtain location where
      3: "?ev \<in> set (snd (bind_res (print (MsgDownloadComplete location (OVERWRITE_EXISTING cfg)))
         (\<lambda>_. verification w location)))"
      by blast
    from bind_res_events [OF 3] print_no_download verification_no_download
    show False by blast
  qed
  from dataset_downloads [OF this] target_version_member [OF t] show ?thesis
    by (cases V) auto
qed

text \<open>
  C5.  In every run, each version passed to a download call, the retry included, is a
  member of the final list of available versions; when that list was never computed, no
  download call is made at all.
\<close>

theorem downloads_are_available:
  assumes "Net (Download v f d ow) \<in> set (snd (download_dataset w))"
  shows "\<exists>cfg V evs. discover w = (Inr (cfg, V), evs) \<and> v \<in> set V"
proof -
  let ?ev = "Net (Download v f d ow)"
  from discover_no_download [of w] have "?ev \<notin> set (snd (discover w))" by auto
  with bind_res_events [OF assms [unfolded download_dataset_def]]
  obtain x where x: "fst (discover w) = Inr x"
    and ev: "?ev \<in> set (snd (case x of (cfg, V) \<Rightarrow> fetch w cfg V))"
    by blast
  obtain cfg V where cv: "x = (cfg, V)" by (cases x)
  from ev cv have "v \<in> set V" by (auto dest: fetch_downloads)
  moreover from x cv have "discover w = (Inr (cfg, V), snd (discover w))"
    by (cases "discover w") simp
  ultimately show ?thesis by blast
qed


lemma versions_example: "versions example_world = (Inr [1, 3], [Net Versions])"
  by (simp add: versions_def example_world_def bind_res_def call_def extract_version_numbers_def
      version_value_attribute_entry version_value_mapping_entry int_of_str_eval
      sorted_list_of_set_sort_remdups)

lemma discover_example:
  "discover example_world =
     (Inr (example_config, [1, 3]),
      [Out (MsgConnecting ''cvtesting-3rnup''), Net (Roboflow ''secret''),
       Net (Workspace ''cvtesting-3rnup''), Net (Project ''segmentation-ui-oh51c''),
       Net Versions, Out (MsgAvailableVersions [1, 3])])"
  by (simp add: discover_def configuration_example versions_example bind_res_def
      check_dependencies_def api_key_def project_def available_versions_def print_def call_def)
     (simp add: example_world_def example_config_def)

lemma fetch_example:
  "fetch example_world example_config [1, 3] =
     (Inr (),
      [Out (MsgDownloading 1 ''yolov8'' ''./dataset''),
       Net (Download 1 ''yolov8'' ''./dataset'' False),
       Out (MsgDownloadFailed 1 (OtherException ''export failed'')),
       Out (MsgRetrying 3),
       Net (Download 3 ''yolov8'' ''./dataset'' False),
       Out (MsgDownloadComplete ''./dataset'' False),
       Out (MsgVerificationSummary 10 8 False False)])"
  by (simp add: fetch_def target_version_def dataset_def download_def verification_def
      bind_res_def print_def call_def Path_def joinpath_def Let_def example_world_def example_config_def)

lemma download_dataset_example:
  "snd (download_dataset example_world) =
      [Out (MsgConnecting ''cvtesting-3rnup''), Net (Roboflow ''secret''),
       Net (Workspace ''cvtesting-3rnup''), Net (Project ''segmentation-ui-oh51c''),
       Net Versions, Out (MsgAvailableVersions [1, 3]),
       Out (MsgDownloading 1 ''yolov8'' ''./dataset''),
       Net (Download 1 ''yolov8'' ''./dataset'' False),
       Out (MsgDownloadFailed 1 (OtherException ''export failed'')),
       Out (MsgRetrying 3),
       Net (Download 3 ''yolov8'' ''./dataset'' False),
       Out (MsgDownloadComplete ''./dataset'' False),
       Out (MsgVerificationSummary 10 8 False False)]"
  by (simp add: download_dataset_def discover_example fetch_example bind_res_def)


theorem downloads_are_available_witness:
  "Net (Download 1 ''yolov8'' ''./dataset'' False) \<in> set (snd (download_dataset example_world)) \<and>
   Net (Download 3 ''yolov8'' ''./dataset'' False) \<in> set (snd (download_dataset example_world)) \<and>
   (\<exists>cfg V evs. discover example_world = (Inr (cfg, V), evs) \<and> 1 \<in> set V \<and> 3 \<in> set V)"
  using downloads_are_available [of 1 "''yolov8''" "''./dataset''" False example_world]
    downloads_are_available [of 3 "''yolov8''" "''./dataset''" False example_world]
  by (simp add: download_dataset_example discover_example)

subsection \<open>How the steps fit together\<close>

text \<open>
  The list that reaches the selection and the download is ascending, free of duplicates
  and not empty, which is what the statements on selection and retry assume; and an
  exception that leaves the download step leaves the script.
\<close>

lemma bind_res_InrD:
  "fst (bind_res m f) = Inr y \<Longrightarrow> \<exists>x. fst m = Inr x \<and> fst (f x) = Inr y"
  by (cases m) (auto simp: bind_res_def split: sum.splits prod.splits)

lemma bind_res_fst_Inl: "fst m = Inl e \<Longrightarrow> fst (bind_res m f) = Inl e"
  by (cases m) (simp add: bind_res_Inl)

lemma bind_res_fst_Inr: "fst m = Inr x \<Longrightarrow> fst (bind_res m f) = fst (f x)"
  by (cases m) (simp add: bind_res_Inr)

lemma versions_sorted:
  assumes "fst (versions w) = Inr avail"
  shows "sorted avail \<and> distinct avail"
proof -
  from bind_res_InrD [OF assms [unfolded versions_def]]
  obtain vs where "extract_version_numbers (builtin_int w) vs = Inr avail" by auto
  then show ?thesis
    by (auto simp: extract_version_numbers_def split: sum.splits)
qed

lemma available_versions_result:
  assumes "fst (available_versions w cfg avail) = Inr V"
  shows "V = avail \<and> avail \<noteq> [] \<or> (\<exists>g. V = [g])"
proof (cases "avail = []")
  case False
  with assms show ?thesis by (simp add: available_versions_def bind_res_Inr print_def)
next
  case True
  with assms show ?thesis
    by (auto simp: available_versions_def bind_res_Inr print_def call_def
        split: if_splits sum.splits)
qed

lemma discover_version_set:
  assumes "fst (discover w) = Inr (cfg, V)"
  shows "sorted V \<and> distinct V \<and> V \<noteq> []"
proof -
  from bind_res_InrD [OF assms [unfolded discover_def]] obtain u where
    1: "fst (bind_res (api_key w) (\<lambda>key.
     bind_res (configuration w) (\<lambda>cfg.
     bind_res (project w key cfg) (\<lambda>_.
     bind_res (versions w) (\<lambda>avail.
     bind_res (available_versions w cfg avail) (\<lambda>avail'. (Inr (cfg, avail'), []))))))) = Inr (cfg, V)"
    by blast
  from bind_res_InrD [OF 1] obtain key where
    2: "fst (bind_res (configuration w) (\<lambda>cfg.
     bind_res (project w key cfg) (\<lambda>_.
     bind_res (versions w) (\<lambda>avail.
     bind_res (available_versions w cfg avail) (\<lambda>avail'. (Inr (cfg, avail'), [])))))) = Inr (cfg, V)"
    by blast
  from bind_res_InrD [OF 2] obtain c where
    3: "fst (bind_res (project w key c) (\<lambda>_.
     bind_res (versions w) (\<lambda>avail.
     bind_res (available_versions w c avail) (\<lambda>avail'. (Inr (c, avail'), []))))) = Inr (cfg, V)"
    by blast
  from bind_res_InrD [OF 3] have
    4: "fst (bind_res (versions w) (\<lambda>avail.
     bind_res (available_versions w c avail) (\<lambda>avail'. (Inr (c, avail'), [])))) = Inr (cfg, V)"
    by blast
  from bind_res_InrD [OF 4] obtain avail where
    a: "fst (versions w) = Inr avail" and
    5: "fst (bind_res (available_versions w c avail) (\<lambda>avail'. (Inr (c, avail'), []))) = Inr (cfg, V)"
    by blast
  from bind_res_InrD [OF 5] have "fst (available_versions w c avail) = Inr V" by auto
  from available_versions_result [OF this] versions_sorted [OF a] show ?thesis by auto
qed

lemma fetch_raises:
  assumes "fst (target_version (VERSION cfg) V) = Inr t"
    and "fst (dataset w cfg t V) = Inl e"
  shows "fst (fetch w cfg V) = Inl e"
  unfolding fetch_def
  by (simp add: bind_res_fst_Inr [OF assms(1)] print_def bind_res_Inr
      bind_res_fst_Inl [OF assms(2)])

lemma process_download_failure_at_latest:
  assumes "fst (discover w) = Inr (cfg, V)"
    and "fst (target_version (VERSION cfg) V) = Inr t"
    and "t = Max (set V)"
    and "rf_download w t (FORMAT cfg) (DEST cfg) (OVERWRITE_EXISTING cfg) = Inl e"
    and "is_Exception e"
  shows "snd (process w) = 1"
proof -
  from discover_version_set [OF assms(1)] have V: "sorted V" "V \<noteq> []" by auto
  then have "last V = t" using assms(3) by (simp add: last_sorted_Max)
  with dataset_failure [OF assms(4,5) V(2)] have "fst (dataset w cfg t V) = Inl e" by simp
  from fetch_raises [OF assms(2) this] have "fst (fetch w cfg V) = Inl e" .
  with assms(1) have "fst (download_dataset w) = Inl e"
    by (simp add: download_dataset_def bind_res_fst_Inr)
  then show ?thesis
    by (cases "download_dataset w") (simp add: process_def exit_status_Exception [OF assms(5)])
qed

end
